theory Spec2Isabelle
  imports Main
begin

section \<open>Locality-aware replica selection\<close>

text \<open>
  The test \<^verbatim>\<open>placement_info-itest.cc\<close> drives
  \<^verbatim>\<open>YBClient::Data::SelectTServer\<close> over a tablet with three replicas. The data
  it sets up (placement strings, one replica per tablet server) is in the sources and is
  modelled from them; the selection routine itself lives in the client library.
\<close>

subsection \<open>Data model\<close>

text \<open>
  Modelled from the spec: the types the client library declares for localities, replicas
  and tablets are not among the sources. The records follow section 3 of the
  specification; a replica is an endpoint with its role, and the address is a host and a
  port. The test reads and writes the three placement fields and the uuid only.
\<close>

record Locality =
  cloud :: string
  region :: string
  zone :: string

record ReplicaEndpoint =
  endpoint_id :: string
  locality :: Locality
  address :: "string \<times> nat"

datatype Role = LEADER | FOLLOWER

type_synonym Replica = "ReplicaEndpoint \<times> Role"

record ReplicaSet =
  tablet_id :: string
  partition :: "string \<times> string"
  replicas :: "Replica list"

datatype ReplicaSelection = CLOSEST_REPLICA | LEADER_ONLY

datatype select_error = NoViableReplica | InvalidDescriptor

subsection \<open>The test fixture (from the sources)\<close>

text \<open>
  \<^verbatim>\<open>strings::Substitute("region$0", ts_index)\<close> appends the decimal rendering of
  the index to the prefix. \<open>decimal\<close> is that rendering for a non-negative index.
\<close>

fun decimal :: "nat \<Rightarrow> string" where
  "decimal n =
     (if n < 10 then [''0123456789'' ! n]
      else decimal (n div 10) @ [''0123456789'' ! (n mod 10)])"

declare decimal.simps [simp del]

definition PlacementRegion :: "nat \<Rightarrow> string" where
  "PlacementRegion ts_index = ''region'' @ decimal ts_index"

definition PlacementZone :: "nat \<Rightarrow> string" where
  "PlacementZone ts_index = ''zone'' @ decimal ts_index"

definition kNumTservers :: nat where
  "kNumTservers = 3"

text \<open>
  \<open>SetUp\<close> starts tablet server \<open>i\<close> with cloud \<open>aws\<close>, region
  \<open>PlacementRegion i\<close> and zone \<open>PlacementZone i\<close>. The permanent uuid, the
  address and the role of each server are chosen by the cluster at run time, so the
  fixture takes them as parameters. The tablet id and the partition come from the
  master and play no part in the selection; they are left empty.
\<close>

definition tserver_locality :: "nat \<Rightarrow> Locality" where
  "tserver_locality i =
     \<lparr>cloud = ''aws'', region = PlacementRegion i, zone = PlacementZone i\<rparr>"

definition tserver_replica ::
  "(nat \<Rightarrow> string) \<Rightarrow> (nat \<Rightarrow> string \<times> nat) \<Rightarrow> (nat \<Rightarrow> Role) \<Rightarrow> nat \<Rightarrow> Replica" where
  "tserver_replica uuid addr role i =
     (\<lparr>endpoint_id = uuid i, locality = tserver_locality i, address = addr i\<rparr>, role i)"

definition test_tablet ::
  "(nat \<Rightarrow> string) \<Rightarrow> (nat \<Rightarrow> string \<times> nat) \<Rightarrow> (nat \<Rightarrow> Role) \<Rightarrow> ReplicaSet" where
  "test_tablet uuid addr role =
     \<lparr>tablet_id = [], partition = ([], []),
      replicas = map (tserver_replica uuid addr role) [0 ..< kNumTservers]\<rparr>"

text \<open>
  \<open>ValidateSelectTServer\<close> builds the requester's cloud info from a zone and a
  region only; the cloud field is left at its default, the empty string.
\<close>

definition cloud_info :: "string \<Rightarrow> string \<Rightarrow> Locality" where
  "cloud_info placement_zone placement_region =
     \<lparr>cloud = [], region = placement_region, zone = placement_zone\<rparr>"

text \<open>A concrete instance of the fixture, for the examples.\<close>

definition example_uuid :: "nat \<Rightarrow> string" where
  "example_uuid i = ''ts-'' @ decimal i"

definition example_addr :: "nat \<Rightarrow> string \<times> nat" where
  "example_addr i = (''127.0.0.1'', 9100 + i)"

definition example_role :: "nat \<Rightarrow> Role" where
  "example_role i = (if i = 0 then LEADER else FOLLOWER)"

definition example_replica :: "nat \<Rightarrow> Replica" where
  "example_replica = tserver_replica example_uuid example_addr example_role"

definition example_tablet :: ReplicaSet where
  "example_tablet = test_tablet example_uuid example_addr example_role"

subsection \<open>The selection algorithm\<close>

text \<open>
  \<^verbatim>\<open>YBClient::Data::SelectTServer\<close> (declared in
  \<^verbatim>\<open>yb/client/client-internal.h\<close>) is called by the test but is not among the
  sources. Each definition of this subsection is written from section 4.1 or section 4.4
  of the specification, one per step of the algorithm.
\<close>

text \<open>
  Modelled from the spec: \<open>matches_field\<close> of section 4.1, absent from the sources.
  Both sides give a non-empty value for the field and the values are equal.
\<close>

definition matches_field :: "(Locality \<Rightarrow> string) \<Rightarrow> Locality \<Rightarrow> Locality \<Rightarrow> bool" where
  "matches_field field a b \<longleftrightarrow> field a \<noteq> [] \<and> field b \<noteq> [] \<and> field a = field b"

text \<open>
  Modelled from the spec: the selection policy of \<open>SelectTServer\<close>, absent from the
  sources. The leader-only mode restricts the pool to the replicas flagged as leader
  before any other rule is applied; \<open>CLOSEST_REPLICA\<close> keeps every replica.
\<close>

definition policy_pool :: "ReplicaSelection \<Rightarrow> Replica list \<Rightarrow> Replica list" where
  "policy_pool policy rs =
     (case policy of
        CLOSEST_REPLICA \<Rightarrow> rs
      | LEADER_ONLY \<Rightarrow> filter (\<lambda>r. snd r = LEADER) rs)"

text \<open>
  Modelled from the spec: step 1 of \<open>SelectTServer\<close>, absent from the sources. The
  replicas whose id is in the exclusion set are removed.
\<close>

definition remaining :: "string set \<Rightarrow> Replica list \<Rightarrow> Replica list" where
  "remaining excluded_ids rs = filter (\<lambda>r. endpoint_id (fst r) \<notin> excluded_ids) rs"

text \<open>
  Modelled from the spec: step 2 of \<open>SelectTServer\<close>, absent from the sources. With
  a non-empty requester id, a remaining replica with exactly that id is the colocated
  one.
\<close>

definition colocated :: "string \<Rightarrow> Replica list \<Rightarrow> Replica option" where
  "colocated requester_id rs =
     (if requester_id \<noteq> [] then find (\<lambda>r. endpoint_id (fst r) = requester_id) rs
      else None)"

text \<open>
  Modelled from the spec: steps 3 and 4 of \<open>SelectTServer\<close>, absent from the
  sources. The dimensions are visited from most to least specific. A dimension the
  requester leaves empty is skipped without altering the pool; a dimension that matches
  some replica of the pool narrows the pool to the matching ones; at a dimension that
  matches none, narrowing stops and the last non-empty pool is kept. When nothing was
  specified or nothing matched, the result is the pool it started from.
\<close>

fun narrow :: "(Locality \<Rightarrow> string) list \<Rightarrow> Locality \<Rightarrow> Replica list \<Rightarrow> Replica list" where
  "narrow [] req pool = pool"
| "narrow (field # more_fields) req pool =
     (if field req = [] then narrow more_fields req pool
      else
        (let matching = filter (\<lambda>r. matches_field field req (locality (fst r))) pool
         in if matching \<noteq> [] then narrow more_fields req matching else pool))"

text \<open>
  Modelled from the spec: the order of the dimensions in step 3 of \<open>SelectTServer\<close>,
  absent from the sources: zone, then region, then cloud.
\<close>

definition dimensions :: "(Locality \<Rightarrow> string) list" where
  "dimensions = [zone, region, cloud]"

text \<open>
  Modelled from the spec: step 5 of \<open>SelectTServer\<close>, absent from the sources. The
  specification leaves the tie-break policy open (first in pool, round robin or
  random); each of them picks the member at some index, so the index is a parameter,
  reduced modulo the size of the pool.
\<close>

definition tie_break :: "nat \<Rightarrow> Replica list \<Rightarrow> Replica" where
  "tie_break k pool = pool ! (k mod length pool)"

text \<open>
  Modelled from the spec: \<open>select\<close> of section 4.4, that is
  \<open>SelectTServer\<close>, absent from the sources. It fails with \<open>NoViableReplica\<close>
  when no replica remains, returns the colocated replica as the only candidate when
  there is one, and otherwise returns the tie-break's choice from the narrowed pool
  together with that pool. The first argument is the tie-break index.
\<close>

definition select ::
  "nat \<Rightarrow> ReplicaSet \<Rightarrow> ReplicaSelection \<Rightarrow> string \<Rightarrow> Locality \<Rightarrow> string set
     \<Rightarrow> select_error + (Replica \<times> Replica list)" where
  "select k replica_set policy requester_id requester_locality excluded_ids =
     (let rest = remaining excluded_ids (policy_pool policy (replicas replica_set))
      in if rest = [] then Inl NoViableReplica
         else
           (case colocated requester_id rest of
              Some r \<Rightarrow> Inr (r, [r])
            | None \<Rightarrow>
                (let pool = narrow dimensions requester_locality rest
                 in Inr (tie_break k pool, pool))))"

section \<open>The inbound call context\<close>

text \<open>
  \<^verbatim>\<open>rpc_context.cc\<close> defines \<open>RpcContext\<close>, the object a handler answers an
  inbound call through, and \<open>PbTracer\<close>, the wrapper that renders a protobuf message
  for the trace buffer. The classes they call into (\<open>InboundCall\<close>, \<open>Status\<close>,
  \<open>UserCredentials\<close>, \<open>Sockaddr\<close>, the trace macros, the JSON writer) are
  declared elsewhere; a call into one of them is recorded as an event of the world, in
  program order, and a value of one of them is represented by what its accessors return.
  Log output (\<open>VLOG\<close>) is not modelled, only the verbosity test that guards it.
\<close>

subsection \<open>Protobuf messages\<close>

datatype pb_field =
    Scalar int
  | Str string
  | Sub "(string \<times> pb_field) list"
  | Repeated "pb_field list"

type_synonym Message = "(string \<times> pb_field) list"

definition EmptyMessagePB :: Message where
  "EmptyMessagePB = []"





subsection \<open>PbTracer\<close>

text \<open>
  A member \<open>x_\<close> of a source class is written with the class in front:
  \<open>msg_\<close> of \<open>PbTracer\<close> is \<open>tracer_msg\<close>, and \<open>call_\<close>,
  \<open>request_pb_\<close>, \<open>response_pb_\<close> and \<open>metrics_\<close> of \<open>RpcContext\<close> are
  \<open>ctx_call\<close>, \<open>ctx_request_pb\<close>, \<open>ctx_response_pb\<close> and \<open>ctx_metrics\<close>.
\<close>

record PbTracer =
  tracer_msg :: Message

definition kMaxFieldLengthToTrace :: nat where
  "kMaxFieldLengthToTrace = 100"

text \<open>The constructor copies the message it is given, whole.\<close>

definition TracePb :: "Message \<Rightarrow> PbTracer" where
  "TracePb msg = \<lparr>tracer_msg = msg\<rparr>"


subsection \<open>Collaborators\<close>

text \<open>
  \<open>Status\<close>, \<open>UserCredentials\<close> and \<open>Sockaddr\<close> are used through
  \<open>ToString()\<close> only, so a value of each is represented by the text that call returns.
\<close>

datatype Status = Status (Status_ToString: string)

datatype UserCredentials = UserCredentials (UserCredentials_ToString: string)

datatype Sockaddr = Sockaddr (Sockaddr_ToString: string)

text \<open>
  Modelled from the spec: the enumeration \<^verbatim>\<open>ErrorStatusPB::RpcErrorCodePB\<close> is
  generated from a protocol file that is not among the sources. The sources name
  \<open>ERROR_APPLICATION\<close>; the specification names a malformed request, an unsupported
  method and an overloaded server as further codes. Any other code is \<open>OTHER_CODE\<close>
  with its number.
\<close>

datatype RpcErrorCodePB =
    ERROR_APPLICATION
  | ERROR_INVALID_REQUEST
  | ERROR_NO_SUCH_METHOD
  | ERROR_SERVER_TOO_BUSY
  | OTHER_CODE nat

record RpcMethodMetrics =
  handler_latency :: nat

text \<open>
  The call handle: \<open>call_id\<close> identifies the inbound call in the events,
  \<open>call_ToString\<close> is \<open>ToString()\<close>, \<open>trace_dump\<close> is
  \<open>trace()->DumpToString(true)\<close> and \<open>socket_fd\<close> is
  \<open>connection()->socket()->GetFd()\<close>.
\<close>

record InboundCall =
  call_id :: nat
  call_ToString :: string
  user_credentials :: UserCredentials
  remote_address :: Sockaddr
  trace_dump :: string
  socket_fd :: nat

subsection \<open>The world\<close>

datatype msg_ptr = nullptr | ptr nat

record RpcContext =
  ctx_call :: InboundCall
  ctx_request_pb :: msg_ptr
  ctx_response_pb :: msg_ptr
  ctx_metrics :: RpcMethodMetrics

datatype trace_arg = TraceString string | TraceConvertable PbTracer

text \<open>
  One event per call into a collaborator. The trace events carry the category, the
  name, the id (the address of the context) and the two named arguments of the macro;
  the call-handle events carry the id of the call. \<open>Delete\<close> is \<open>delete this\<close>.
\<close>

datatype event =
    RecordHandlingCompleted nat nat
  | TRACE_EVENT_ASYNC_BEGIN2 string string nat string trace_arg string trace_arg
  | TRACE_EVENT_ASYNC_END2 string string nat string trace_arg string trace_arg
  | InboundCall_RespondSuccess nat Message
  | InboundCall_RespondFailure nat RpcErrorCodePB Status
  | InboundCall_RespondApplicationError nat int string Message
  | Delete nat

record Socket =
  read_open :: bool
  write_open :: bool

text \<open>
  \<open>heap\<close> holds the live contexts by address, \<open>messages\<close> the payloads the
  message pointers refer to, \<open>sockets\<close> the open sockets by descriptor,
  \<open>verbosity\<close> the logging verbosity and \<open>events\<close> the calls made so far.
\<close>

record World =
  heap :: "nat \<rightharpoonup> RpcContext"
  messages :: "nat \<rightharpoonup> Message"
  sockets :: "nat \<rightharpoonup> Socket"
  verbosity :: int
  events :: "event list"

text \<open>
  Dereferencing a null pointer, a dangling pointer or a deleted context is undefined
  behaviour in the source; the model returns a fault.
\<close>

datatype fault = NullDereference | DanglingPointer | UseAfterFree

definition deref :: "World \<Rightarrow> msg_ptr \<Rightarrow> fault + Message" where
  "deref w p =
     (case p of
        nullptr \<Rightarrow> Inl NullDereference
      | ptr a \<Rightarrow> (case messages w a of None \<Rightarrow> Inl DanglingPointer | Some m \<Rightarrow> Inr m))"

definition emit :: "event \<Rightarrow> World \<Rightarrow> World" where
  "emit e w = w\<lparr>events := events w @ [e]\<rparr>"

text \<open>
  \<open>delete this\<close> destroys the context. The model removes the context from the heap
  and records the deletion; the release of the context's references to its payloads, and
  with it the lifetime of the payloads, is not modelled: \<open>messages\<close> keeps them.
\<close>

definition delete_this :: "nat \<Rightarrow> World \<Rightarrow> World" where
  "delete_this this w = emit (Delete this) (w\<lparr>heap := (heap w)(this := None)\<rparr>)"

definition VLOG_IS_ON :: "int \<Rightarrow> World \<Rightarrow> bool" where
  "VLOG_IS_ON level w \<longleftrightarrow> level \<le> verbosity w"

subsection \<open>The empty message\<close>

text \<open>
  \<open>EMPTY_MESSAGE\<close> is a static shared pointer to a const \<open>EmptyMessagePB\<close>,
  allocated once when the program starts. Its address is fixed in the model, and
  \<open>static_init\<close> is the static initialiser.
\<close>

definition EMPTY_MESSAGE_address :: nat where
  "EMPTY_MESSAGE_address = 0"

definition EMPTY_MESSAGE :: msg_ptr where
  "EMPTY_MESSAGE = ptr EMPTY_MESSAGE_address"

definition static_init :: "World \<Rightarrow> World" where
  "static_init w = w\<lparr>messages := (messages w)(EMPTY_MESSAGE_address \<mapsto> EmptyMessagePB)\<rparr>"

definition statics_initialised :: "World \<Rightarrow> bool" where
  "statics_initialised w \<longleftrightarrow> messages w EMPTY_MESSAGE_address = Some EmptyMessagePB"

subsection \<open>Construction\<close>


definition RpcContext_new_no_args ::
  "nat \<Rightarrow> InboundCall \<Rightarrow> RpcMethodMetrics \<Rightarrow> World \<Rightarrow> fault + World" where
  "RpcContext_new_no_args this call metrics w =
     (let ctx = \<lparr>ctx_call = call, ctx_request_pb = EMPTY_MESSAGE, ctx_response_pb = EMPTY_MESSAGE,
                ctx_metrics = metrics\<rparr>
      in case deref w (ctx_request_pb ctx) of
           Inl f \<Rightarrow> Inl f
         | Inr request \<Rightarrow>
             Inr (emit (TRACE_EVENT_ASYNC_BEGIN2 ''rpc_call'' ''RPC'' this
                          ''call'' (TraceString (call_ToString (ctx_call ctx)))
                          ''request'' (TraceConvertable (TracePb request)))
                    (w\<lparr>heap := (heap w)(this \<mapsto> ctx)\<rparr>)))"

subsection \<open>Terminal operations\<close>

text \<open>
  Each operation takes the address of the context. The \<open>VLOG\<close> lines only write to
  the log and are left out; in \<open>RespondApplicationError\<close> the verbosity test that
  guards the log line also encloses the end event of the trace span.
\<close>

definition RespondSuccess :: "nat \<Rightarrow> World \<Rightarrow> fault + World" where
  "RespondSuccess this w =
     (case heap w this of
        None \<Rightarrow> Inl UseAfterFree
      | Some ctx \<Rightarrow>
          (let w1 = emit (RecordHandlingCompleted (call_id (ctx_call ctx))
                            (handler_latency (ctx_metrics ctx))) w
           in case deref w1 (ctx_response_pb ctx) of
                Inl f \<Rightarrow> Inl f
              | Inr response \<Rightarrow>
                  (let w2 = emit (TRACE_EVENT_ASYNC_END2 ''rpc_call'' ''RPC'' this
                                    ''response'' (TraceConvertable (TracePb response))
                                    ''trace'' (TraceString (trace_dump (ctx_call ctx)))) w1;
                       w3 = emit (InboundCall_RespondSuccess (call_id (ctx_call ctx)) response) w2
                   in Inr (delete_this this w3))))"

definition RespondFailure :: "nat \<Rightarrow> Status \<Rightarrow> World \<Rightarrow> fault + World" where
  "RespondFailure this status w =
     (case heap w this of
        None \<Rightarrow> Inl UseAfterFree
      | Some ctx \<Rightarrow>
          (let w1 = emit (RecordHandlingCompleted (call_id (ctx_call ctx))
                            (handler_latency (ctx_metrics ctx))) w;
               w2 = emit (TRACE_EVENT_ASYNC_END2 ''rpc_call'' ''RPC'' this
                            ''status'' (TraceString (Status_ToString status))
                            ''trace'' (TraceString (trace_dump (ctx_call ctx)))) w1;
               w3 = emit (InboundCall_RespondFailure (call_id (ctx_call ctx))
                            ERROR_APPLICATION status) w2
           in Inr (delete_this this w3)))"

definition RespondRpcFailure :: "nat \<Rightarrow> RpcErrorCodePB \<Rightarrow> Status \<Rightarrow> World \<Rightarrow> fault + World" where
  "RespondRpcFailure this err status w =
     (case heap w this of
        None \<Rightarrow> Inl UseAfterFree
      | Some ctx \<Rightarrow>
          (let w1 = emit (RecordHandlingCompleted (call_id (ctx_call ctx))
                            (handler_latency (ctx_metrics ctx))) w;
               w2 = emit (TRACE_EVENT_ASYNC_END2 ''rpc_call'' ''RPC'' this
                            ''status'' (TraceString (Status_ToString status))
                            ''trace'' (TraceString (trace_dump (ctx_call ctx)))) w1;
               w3 = emit (InboundCall_RespondFailure (call_id (ctx_call ctx)) err status) w2
           in Inr (delete_this this w3)))"

definition RespondApplicationError ::
  "nat \<Rightarrow> int \<Rightarrow> string \<Rightarrow> Message \<Rightarrow> World \<Rightarrow> fault + World" where
  "RespondApplicationError this error_ext_id message app_error_pb w =
     (case heap w this of
        None \<Rightarrow> Inl UseAfterFree
      | Some ctx \<Rightarrow>
          (let w1 = emit (RecordHandlingCompleted (call_id (ctx_call ctx))
                            (handler_latency (ctx_metrics ctx))) w;
               w2 = (if VLOG_IS_ON 4 w1
                     then emit (TRACE_EVENT_ASYNC_END2 ''rpc_call'' ''RPC'' this
                                  ''response'' (TraceConvertable (TracePb app_error_pb))
                                  ''trace'' (TraceString (trace_dump (ctx_call ctx)))) w1
                     else w1);
               w3 = emit (InboundCall_RespondApplicationError (call_id (ctx_call ctx))
                            error_ext_id message app_error_pb) w2
           in Inr (delete_this this w3)))"

subsection \<open>Accessors\<close>

definition RpcContext_user_credentials :: "nat \<Rightarrow> World \<Rightarrow> fault + UserCredentials" where
  "RpcContext_user_credentials this w =
     (case heap w this of
        None \<Rightarrow> Inl UseAfterFree
      | Some ctx \<Rightarrow> Inr (user_credentials (ctx_call ctx)))"

definition RpcContext_remote_address :: "nat \<Rightarrow> World \<Rightarrow> fault + Sockaddr" where
  "RpcContext_remote_address this w =
     (case heap w this of
        None \<Rightarrow> Inl UseAfterFree
      | Some ctx \<Rightarrow> Inr (remote_address (ctx_call ctx)))"

definition requestor_string :: "nat \<Rightarrow> World \<Rightarrow> fault + string" where
  "requestor_string this w =
     (case heap w this of
        None \<Rightarrow> Inl UseAfterFree
      | Some ctx \<Rightarrow>
          Inr (UserCredentials_ToString (user_credentials (ctx_call ctx)) @ '' at '' @
               Sockaddr_ToString (remote_address (ctx_call ctx))))"

subsection \<open>Closing the connection\<close>

text \<open>
  \<open>shutdown\<close> and its \<open>how\<close> constants come from the system header
  \<^verbatim>\<open><sys/socket.h>\<close>. On Linux (and on the BSDs and macOS) the constants are
  \<open>SHUT_RD = 0\<close>, \<open>SHUT_WR = 1\<close> and \<open>SHUT_RDWR = 2\<close>: they number three
  modes and are not bit flags. \<open>shutdown\<close> fails and changes nothing for a descriptor
  that is not an open socket and for any other value of \<open>how\<close>; the source ignores
  the return value.
\<close>

definition SHUT_RD :: int where
  "SHUT_RD = 0"

definition SHUT_WR :: int where
  "SHUT_WR = 1"

definition SHUT_RDWR :: int where
  "SHUT_RDWR = 2"

definition shutdown :: "nat \<Rightarrow> int \<Rightarrow> World \<Rightarrow> World" where
  "shutdown fd how w =
     (case sockets w fd of
        None \<Rightarrow> w
      | Some s \<Rightarrow>
          (if how = SHUT_RD then w\<lparr>sockets := (sockets w)(fd \<mapsto> s\<lparr>read_open := False\<rparr>)\<rparr>
           else if how = SHUT_WR then w\<lparr>sockets := (sockets w)(fd \<mapsto> s\<lparr>write_open := False\<rparr>)\<rparr>
           else if how = SHUT_RDWR
             then w\<lparr>sockets := (sockets w)(fd \<mapsto> s\<lparr>read_open := False, write_open := False\<rparr>)\<rparr>
           else w))"

definition CloseConnection :: "nat \<Rightarrow> World \<Rightarrow> fault + World" where
  "CloseConnection this w =
     (case heap w this of
        None \<Rightarrow> Inl UseAfterFree
      | Some ctx \<Rightarrow> Inr (shutdown (socket_fd (ctx_call ctx)) (or SHUT_RD SHUT_WR) w))"

subsection \<open>Reading the event log\<close>

fun is_latency_sample :: "event \<Rightarrow> bool" where
  "is_latency_sample (RecordHandlingCompleted c h) \<longleftrightarrow> True"
| "is_latency_sample _ \<longleftrightarrow> False"

fun is_send :: "event \<Rightarrow> bool" where
  "is_send (InboundCall_RespondSuccess c m) \<longleftrightarrow> True"
| "is_send (InboundCall_RespondFailure c e s) \<longleftrightarrow> True"
| "is_send (InboundCall_RespondApplicationError c i s m) \<longleftrightarrow> True"
| "is_send _ \<longleftrightarrow> False"

fun is_span_end :: "event \<Rightarrow> bool" where
  "is_span_end (TRACE_EVENT_ASYNC_END2 cat name ident n1 a1 n2 a2) \<longleftrightarrow> True"
| "is_span_end _ \<longleftrightarrow> False"

text \<open>The events added between an earlier world and a later one.\<close>

definition events_since :: "World \<Rightarrow> World \<Rightarrow> event list" where
  "events_since w w' = drop (length (events w)) (events w')"

subsection \<open>A concrete call\<close>

text \<open>
  One inbound call on socket 5, answered through a context at address 7 whose request
  and response are the messages at addresses 1 and 2, in a process that logs at
  verbosity 0. The examples below are evaluated in this world.
\<close>

definition example_call :: InboundCall where
  "example_call =
     \<lparr>call_id = 3, call_ToString = ''Call yb.Ping 10.0.0.9:50432 #3'',
      user_credentials = UserCredentials ''{real_user=yugabyte}'',
      remote_address = Sockaddr ''10.0.0.9:50432'',
      trace_dump = ''0us handler started'', socket_fd = 5\<rparr>"

definition example_context :: RpcContext where
  "example_context =
     \<lparr>ctx_call = example_call, ctx_request_pb = ptr 1, ctx_response_pb = ptr 2,
      ctx_metrics = \<lparr>handler_latency = 11\<rparr>\<rparr>"

definition example_world :: World where
  "example_world =
     \<lparr>heap = [7 \<mapsto> example_context],
      messages = [EMPTY_MESSAGE_address \<mapsto> EmptyMessagePB,
                  1 \<mapsto> [(''key'', Scalar 42)],
                  2 \<mapsto> [(''value'', Str ''pong'')]],
      sockets = [5 \<mapsto> \<lparr>read_open = True, write_open = True\<rparr>],
      verbosity = 0,
      events = []\<rparr>"





section \<open>Replica selection: properties\<close>

subsection \<open>Auxiliary facts\<close>

lemma find_distinct_ids:
  "distinct (map f xs) \<Longrightarrow> x \<in> set xs \<Longrightarrow> find (\<lambda>y. f y = f x) xs = Some x"
proof (induction xs)
  case Nil
  then show ?case by simp
next
  case (Cons y ys)
  show ?case
  proof (cases "f y = f x")
    case True
    with Cons.prems have "y = x" by (auto simp: image_iff)
    with True show ?thesis by simp
  next
    case False
    with Cons show ?thesis by auto
  qed
qed

lemma remaining_distinct:
  "distinct (map (\<lambda>r. endpoint_id (fst r)) rs) \<Longrightarrow>
   distinct (map (\<lambda>r. endpoint_id (fst r)) (remaining ex (policy_pool policy rs)))"
  by (cases policy) (simp_all add: remaining_def policy_pool_def distinct_map_filter)

lemma narrow_not_empty: "pool \<noteq> [] \<Longrightarrow> narrow more_fields req pool \<noteq> []"
  by (induction more_fields arbitrary: pool) (auto simp: Let_def)

lemma narrow_subset: "set (narrow more_fields req pool) \<subseteq> set pool"
proof (induction more_fields arbitrary: pool)
  case Nil
  then show ?case by simp
next
  case (Cons field more_fields)
  let ?m = "filter (\<lambda>r. matches_field field req (locality (fst r))) pool"
  have "set (narrow more_fields req ?m) \<subseteq> set pool"
    using Cons.IH [of ?m] by auto
  with Cons.IH [of pool] show ?case by (simp add: Let_def)
qed

lemma tie_break_member: "pool \<noteq> [] \<Longrightarrow> tie_break k pool \<in> set pool"
  by (simp add: tie_break_def)

lemma decimal_digit [simp]:
  "decimal 0 = ''0''" "decimal (Suc 0) = ''1''" "decimal 2 = ''2''"
  "decimal (Suc (Suc 0)) = ''2''"
  by (simp_all add: decimal.simps)

lemma upt_3: "[0 ..< 3] = [0, Suc 0, 2]"
  by (simp add: upt_rec numeral_3_eq_3)

lemma less_3_cases: "i < (3::nat) \<Longrightarrow> i = 0 \<or> i = Suc 0 \<or> i = 2"
  by arith

lemma test_replicas:
  "replicas (test_tablet uuid addr role) =
     [tserver_replica uuid addr role 0, tserver_replica uuid addr role (Suc 0),
      tserver_replica uuid addr role 2]"
  by (simp add: test_tablet_def kNumTservers_def upt_3)

lemmas fixture_defs =
  select_def remaining_def policy_pool_def colocated_def test_replicas dimensions_def
  tserver_replica_def tserver_locality_def cloud_info_def PlacementZone_def
  PlacementRegion_def matches_field_def tie_break_def kNumTservers_def Let_def

lemmas example_defs =
  example_tablet_def example_replica_def example_uuid_def example_addr_def example_role_def

text \<open>
  Narrowing by one specified dimension: when the requester gives a value for
  \<open>field\<close>, some remaining replica carries that value, no colocated replica is
  found, and every more specific dimension is skipped, the candidates all carry the
  value and the chosen replica is one of them.
\<close>

lemma select_by_zone:
  assumes nomatch:
      "colocated requester_id (remaining excluded_ids (policy_pool policy (replicas rs))) = None"
    and member: "r \<in> set (remaining excluded_ids (policy_pool policy (replicas rs)))"
    and same: "zone (locality (fst r)) = zone req"
    and given: "zone req \<noteq> []"
  shows "\<exists>chosen cands.
           select k rs policy requester_id req excluded_ids = Inr (chosen, cands) \<and>
           chosen \<in> set cands \<and>
           set cands \<subseteq> set (remaining excluded_ids (policy_pool policy (replicas rs))) \<and>
           (\<forall>c \<in> set cands. zone (locality (fst c)) = zone req)"
proof -
  let ?rest = "remaining excluded_ids (policy_pool policy (replicas rs))"
  let ?m = "filter (\<lambda>x. matches_field zone req (locality (fst x))) ?rest"
  let ?pool = "narrow [region, cloud] req ?m"
  from member same given have "r \<in> set ?m"
    by (simp add: matches_field_def)
  then have m_ne: "?m \<noteq> []" by (auto simp: filter_empty_conv)
  then have pool_ne: "?pool \<noteq> []" by (rule narrow_not_empty)
  have sub: "set ?pool \<subseteq> set ?m" by (rule narrow_subset)
  have narrowed: "narrow dimensions req ?rest = ?pool"
    using given m_ne by (simp add: dimensions_def Let_def)
  from member have "?rest \<noteq> []" by auto
  with nomatch narrowed
  have "select k rs policy requester_id req excluded_ids = Inr (tie_break k ?pool, ?pool)"
    by (simp add: select_def Let_def)
  moreover have "tie_break k ?pool \<in> set ?pool"
    using pool_ne by (rule tie_break_member)
  moreover have "set ?pool \<subseteq> set ?rest" using sub by auto
  moreover have "\<forall>c \<in> set ?pool. zone (locality (fst c)) = zone req"
    using sub by (auto simp: matches_field_def)
  ultimately show ?thesis by blast
qed

lemma select_by_region:
  assumes nomatch:
      "colocated requester_id (remaining excluded_ids (policy_pool policy (replicas rs))) = None"
    and member: "r \<in> set (remaining excluded_ids (policy_pool policy (replicas rs)))"
    and same: "region (locality (fst r)) = region req"
    and given: "region req \<noteq> []"
    and no_zone: "zone req = []"
  shows "\<exists>chosen cands.
           select k rs policy requester_id req excluded_ids = Inr (chosen, cands) \<and>
           chosen \<in> set cands \<and>
           set cands \<subseteq> set (remaining excluded_ids (policy_pool policy (replicas rs))) \<and>
           (\<forall>c \<in> set cands. region (locality (fst c)) = region req)"
proof -
  let ?rest = "remaining excluded_ids (policy_pool policy (replicas rs))"
  let ?m = "filter (\<lambda>x. matches_field region req (locality (fst x))) ?rest"
  let ?pool = "narrow [cloud] req ?m"
  from member same given have "r \<in> set ?m"
    by (simp add: matches_field_def)
  then have m_ne: "?m \<noteq> []" by (auto simp: filter_empty_conv)
  then have pool_ne: "?pool \<noteq> []" by (rule narrow_not_empty)
  have sub: "set ?pool \<subseteq> set ?m" by (rule narrow_subset)
  have narrowed: "narrow dimensions req ?rest = ?pool"
    using given no_zone m_ne by (simp add: dimensions_def Let_def)
  from member have "?rest \<noteq> []" by auto
  with nomatch narrowed
  have "select k rs policy requester_id req excluded_ids = Inr (tie_break k ?pool, ?pool)"
    by (simp add: select_def Let_def)
  moreover have "tie_break k ?pool \<in> set ?pool"
    using pool_ne by (rule tie_break_member)
  moreover have "set ?pool \<subseteq> set ?rest" using sub by auto
  moreover have "\<forall>c \<in> set ?pool. region (locality (fst c)) = region req"
    using sub by (auto simp: matches_field_def)
  ultimately show ?thesis by blast
qed

text \<open>The two locality cases of \<open>TestSelectTServer\<close>, for any tie-break index.\<close>

lemma test_zone_beats_region:
  assumes "i < kNumTservers"
  shows "select k (test_tablet uuid addr role) CLOSEST_REPLICA []
            (cloud_info (PlacementZone i) (PlacementRegion ((i + 1) mod kNumTservers))) {}
         = Inr (tserver_replica uuid addr role i, [tserver_replica uuid addr role i])"
proof -
  from assms have "i = 0 \<or> i = Suc 0 \<or> i = 2"
    by (simp add: kNumTservers_def less_3_cases)
  then show ?thesis
    by (elim disjE) (simp_all add: fixture_defs)
qed

lemma test_region_only:
  assumes "i < kNumTservers"
  shows "select k (test_tablet uuid addr role) CLOSEST_REPLICA []
            (cloud_info [] (PlacementRegion i)) {}
         = Inr (tserver_replica uuid addr role i, [tserver_replica uuid addr role i])"
proof -
  from assms have "i = 0 \<or> i = Suc 0 \<or> i = 2"
    by (simp add: kNumTservers_def less_3_cases)
  then show ?thesis
    by (elim disjE) (simp_all add: fixture_defs)
qed

subsection \<open>Colocation\<close>

text \<open>
  Claim C1. Whenever the requester's id is the id of a replica of the pool that is not
  excluded, \<open>select\<close> returns that replica, and the candidates are that replica
  alone, whatever locality the requester supplies. The pool is the replica set after
  the policy's restriction (all replicas under \<open>CLOSEST_REPLICA\<close>); replica ids are
  unique and non-empty, as the data model requires of an endpoint.
\<close>

theorem select_colocation:
  assumes member: "r \<in> set (policy_pool policy (replicas rs))"
    and unique: "distinct (map (\<lambda>x. endpoint_id (fst x)) (replicas rs))"
    and allowed: "endpoint_id (fst r) \<notin> excluded_ids"
    and named: "endpoint_id (fst r) \<noteq> []"
  shows "select k rs policy (endpoint_id (fst r)) requester_locality excluded_ids
           = Inr (r, [r])"
proof -
  let ?rest = "remaining excluded_ids (policy_pool policy (replicas rs))"
  from member allowed have in_rest: "r \<in> set ?rest"
    by (simp add: remaining_def)
  then have nonempty: "?rest \<noteq> []" by auto
  have "distinct (map (\<lambda>x. endpoint_id (fst x)) ?rest)"
    using unique by (rule remaining_distinct)
  then have "find (\<lambda>y. endpoint_id (fst y) = endpoint_id (fst r)) ?rest = Some r"
    using in_rest by (rule find_distinct_ids)
  with named have "colocated (endpoint_id (fst r)) ?rest = Some r"
    by (simp add: colocated_def)
  with nonempty show ?thesis
    by (simp add: select_def Let_def)
qed

text \<open>
  The last case of \<open>TestSelectTServer\<close> for server 0: the requester carries the uuid
  of server 0, the zone of server 1 and the region of server 2.
\<close>

theorem select_colocation_witness:
  "example_replica 0 \<in> set (policy_pool CLOSEST_REPLICA (replicas example_tablet)) \<and>
   distinct (map (\<lambda>x. endpoint_id (fst x)) (replicas example_tablet)) \<and>
   endpoint_id (fst (example_replica 0)) = ''ts-0'' \<and>
   select 0 example_tablet CLOSEST_REPLICA ''ts-0''
     (cloud_info (PlacementZone 1) (PlacementRegion 2)) {}
   = Inr (example_replica 0, [example_replica 0])"
proof -
  have member: "example_replica 0 \<in> set (policy_pool CLOSEST_REPLICA (replicas example_tablet))"
    by (simp add: example_defs test_replicas policy_pool_def)
  have unique: "distinct (map (\<lambda>x. endpoint_id (fst x)) (replicas example_tablet))"
    by (simp add: example_defs test_replicas tserver_replica_def)
  have name: "endpoint_id (fst (example_replica 0)) = ''ts-0''"
    by (simp add: example_defs tserver_replica_def)
  have "select 0 example_tablet CLOSEST_REPLICA (endpoint_id (fst (example_replica 0)))
          (cloud_info (PlacementZone 1) (PlacementRegion 2)) {}
        = Inr (example_replica 0, [example_replica 0])"
    using member unique by (rule select_colocation) (simp_all add: name)
  with member unique name show ?thesis by simp
qed

subsection \<open>Zone before region\<close>

text \<open>
  Claim C2. When no replica is selected by the requester's id, and some remaining
  replica is in the requester's zone, the chosen replica and every candidate are in
  that zone, whichever replicas match the requester's region or cloud. In the test's
  tablet of three replicas, a requester in zone \<open>i\<close> and region \<open>i + 1\<close> is given
  replica \<open>i\<close>, for any uuids, addresses, roles and tie-break index.
\<close>

theorem select_prefers_zone:
  "(colocated requester_id (remaining excluded_ids (policy_pool policy (replicas rs))) = None \<and>
    r \<in> set (remaining excluded_ids (policy_pool policy (replicas rs))) \<and>
    zone (locality (fst r)) = zone req \<and> zone req \<noteq> [] \<longrightarrow>
      (\<exists>chosen cands.
         select k rs policy requester_id req excluded_ids = Inr (chosen, cands) \<and>
         chosen \<in> set cands \<and>
         set cands \<subseteq> set (remaining excluded_ids (policy_pool policy (replicas rs))) \<and>
         (\<forall>c \<in> set cands. zone (locality (fst c)) = zone req))) \<and>
   (\<forall>i < kNumTservers.
      select k' (test_tablet uuid addr role) CLOSEST_REPLICA []
        (cloud_info (PlacementZone i) (PlacementRegion ((i + 1) mod kNumTservers))) {}
      = Inr (tserver_replica uuid addr role i, [tserver_replica uuid addr role i]))"
proof (intro conjI impI allI)
  assume "colocated requester_id (remaining excluded_ids (policy_pool policy (replicas rs))) = None \<and>
    r \<in> set (remaining excluded_ids (policy_pool policy (replicas rs))) \<and>
    zone (locality (fst r)) = zone req \<and> zone req \<noteq> []"
  then show "\<exists>chosen cands.
         select k rs policy requester_id req excluded_ids = Inr (chosen, cands) \<and>
         chosen \<in> set cands \<and>
         set cands \<subseteq> set (remaining excluded_ids (policy_pool policy (replicas rs))) \<and>
         (\<forall>c \<in> set cands. zone (locality (fst c)) = zone req)"
    by (elim conjE) (rule select_by_zone)
next
  fix i
  assume "i < kNumTservers"
  then show "select k' (test_tablet uuid addr role) CLOSEST_REPLICA []
        (cloud_info (PlacementZone i) (PlacementRegion ((i + 1) mod kNumTservers))) {}
      = Inr (tserver_replica uuid addr role i, [tserver_replica uuid addr role i])"
    by (rule test_zone_beats_region)
qed

text \<open>
  The spec's scenario: zone \<open>zone1\<close> with region \<open>region2\<close> gives replica 1, and
  the general statement applies with replica 1 as the replica in the zone.
\<close>

theorem select_prefers_zone_witness:
  "colocated [] (remaining {} (policy_pool CLOSEST_REPLICA (replicas example_tablet))) = None \<and>
   example_replica 1 \<in> set (remaining {} (policy_pool CLOSEST_REPLICA (replicas example_tablet))) \<and>
   zone (locality (fst (example_replica 1))) = ''zone1'' \<and>
   (\<exists>chosen cands.
      select 0 example_tablet CLOSEST_REPLICA [] (cloud_info ''zone1'' ''region2'') {}
        = Inr (chosen, cands) \<and>
      chosen \<in> set cands \<and> list_all (\<lambda>c. zone (locality (fst c)) = ''zone1'') cands) \<and>
   select 0 example_tablet CLOSEST_REPLICA [] (cloud_info ''zone1'' ''region2'') {}
     = Inr (example_replica 1, [example_replica 1])"
proof -
  have nomatch:
    "colocated [] (remaining {} (policy_pool CLOSEST_REPLICA (replicas example_tablet))) = None"
    by (simp add: colocated_def)
  have member:
    "example_replica 1 \<in> set (remaining {} (policy_pool CLOSEST_REPLICA (replicas example_tablet)))"
    by (simp add: example_defs test_replicas policy_pool_def remaining_def)
  have same: "zone (locality (fst (example_replica 1))) = ''zone1''"
    by (simp add: example_defs tserver_replica_def tserver_locality_def PlacementZone_def)
  have req: "zone (cloud_info ''zone1'' ''region2'') = ''zone1''"
    by (simp add: cloud_info_def)
  note fact = select_prefers_zone [where requester_id = "[]" and excluded_ids = "{}"
      and policy = CLOSEST_REPLICA and rs = example_tablet and r = "example_replica 1"
      and req = "cloud_info ''zone1'' ''region2''" and k = 0 and k' = 0
      and uuid = example_uuid and addr = example_addr and role = example_role]
  from fact nomatch member same req
  have general: "\<exists>chosen cands.
      select 0 example_tablet CLOSEST_REPLICA [] (cloud_info ''zone1'' ''region2'') {}
        = Inr (chosen, cands) \<and>
      chosen \<in> set cands \<and> list_all (\<lambda>c. zone (locality (fst c)) = ''zone1'') cands"
    by (simp add: list_all_iff) blast
  have index: "(1::nat) < kNumTservers" by (simp add: kNumTservers_def)
  from fact have "\<forall>i < kNumTservers.
      select 0 (test_tablet example_uuid example_addr example_role) CLOSEST_REPLICA []
        (cloud_info (PlacementZone i) (PlacementRegion ((i + 1) mod kNumTservers))) {}
      = Inr (tserver_replica example_uuid example_addr example_role i,
             [tserver_replica example_uuid example_addr example_role i])"
    by (rule conjunct2)
  with index have "select 0 (test_tablet example_uuid example_addr example_role) CLOSEST_REPLICA []
        (cloud_info (PlacementZone 1) (PlacementRegion ((1 + 1) mod kNumTservers))) {}
      = Inr (tserver_replica example_uuid example_addr example_role 1,
             [tserver_replica example_uuid example_addr example_role 1])"
    by blast
  then have scenario:
    "select 0 example_tablet CLOSEST_REPLICA [] (cloud_info ''zone1'' ''region2'') {}
     = Inr (example_replica 1, [example_replica 1])"
    by (simp add: example_tablet_def example_replica_def PlacementZone_def PlacementRegion_def
          kNumTservers_def)
  from nomatch member same general scenario show ?thesis by (intro conjI)
qed

subsection \<open>Region when the zone is unspecified\<close>

text \<open>
  Claim C5. When the requester leaves the zone empty and no replica is selected by the
  requester's id, and some remaining replica is in the requester's region, the chosen
  replica and every candidate are in that region, whichever replicas match the cloud
  only or nothing. In the test's tablet of three replicas, a requester with region
  \<open>i\<close> and no zone is given replica \<open>i\<close>; for \<open>region2\<close> that is replica 2.
\<close>

theorem select_prefers_region:
  "(colocated requester_id (remaining excluded_ids (policy_pool policy (replicas rs))) = None \<and>
    r \<in> set (remaining excluded_ids (policy_pool policy (replicas rs))) \<and>
    region (locality (fst r)) = region req \<and> region req \<noteq> [] \<and> zone req = [] \<longrightarrow>
      (\<exists>chosen cands.
         select k rs policy requester_id req excluded_ids = Inr (chosen, cands) \<and>
         chosen \<in> set cands \<and>
         set cands \<subseteq> set (remaining excluded_ids (policy_pool policy (replicas rs))) \<and>
         (\<forall>c \<in> set cands. region (locality (fst c)) = region req))) \<and>
   (\<forall>i < kNumTservers.
      select k' (test_tablet uuid addr role) CLOSEST_REPLICA []
        (cloud_info [] (PlacementRegion i)) {}
      = Inr (tserver_replica uuid addr role i, [tserver_replica uuid addr role i]))"
proof (intro conjI impI allI)
  assume "colocated requester_id (remaining excluded_ids (policy_pool policy (replicas rs))) = None \<and>
    r \<in> set (remaining excluded_ids (policy_pool policy (replicas rs))) \<and>
    region (locality (fst r)) = region req \<and> region req \<noteq> [] \<and> zone req = []"
  then show "\<exists>chosen cands.
         select k rs policy requester_id req excluded_ids = Inr (chosen, cands) \<and>
         chosen \<in> set cands \<and>
         set cands \<subseteq> set (remaining excluded_ids (policy_pool policy (replicas rs))) \<and>
         (\<forall>c \<in> set cands. region (locality (fst c)) = region req)"
    by (elim conjE) (rule select_by_region)
next
  fix i
  assume "i < kNumTservers"
  then show "select k' (test_tablet uuid addr role) CLOSEST_REPLICA []
        (cloud_info [] (PlacementRegion i)) {}
      = Inr (tserver_replica uuid addr role i, [tserver_replica uuid addr role i])"
    by (rule test_region_only)
qed

theorem select_prefers_region_witness:
  "colocated [] (remaining {} (policy_pool CLOSEST_REPLICA (replicas example_tablet))) = None \<and>
   example_replica 2 \<in> set (remaining {} (policy_pool CLOSEST_REPLICA (replicas example_tablet))) \<and>
   region (locality (fst (example_replica 2))) = ''region2'' \<and>
   (\<exists>chosen cands.
      select 0 example_tablet CLOSEST_REPLICA [] (cloud_info [] ''region2'') {}
        = Inr (chosen, cands) \<and>
      chosen \<in> set cands \<and> list_all (\<lambda>c. region (locality (fst c)) = ''region2'') cands) \<and>
   select 0 example_tablet CLOSEST_REPLICA [] (cloud_info [] ''region2'') {}
     = Inr (example_replica 2, [example_replica 2])"
proof -
  have nomatch:
    "colocated [] (remaining {} (policy_pool CLOSEST_REPLICA (replicas example_tablet))) = None"
    by (simp add: colocated_def)
  have member:
    "example_replica 2 \<in> set (remaining {} (policy_pool CLOSEST_REPLICA (replicas example_tablet)))"
    by (simp add: example_defs test_replicas policy_pool_def remaining_def)
  have same: "region (locality (fst (example_replica 2))) = ''region2''"
    by (simp add: example_defs tserver_replica_def tserver_locality_def PlacementRegion_def)
  have req: "region (cloud_info [] ''region2'') = ''region2''" "zone (cloud_info [] ''region2'') = []"
    by (simp_all add: cloud_info_def)
  note fact = select_prefers_region [where requester_id = "[]" and excluded_ids = "{}"
      and policy = CLOSEST_REPLICA and rs = example_tablet and r = "example_replica 2"
      and req = "cloud_info [] ''region2''" and k = 0 and k' = 0
      and uuid = example_uuid and addr = example_addr and role = example_role]
  from fact nomatch member same req
  have general: "\<exists>chosen cands.
      select 0 example_tablet CLOSEST_REPLICA [] (cloud_info [] ''region2'') {}
        = Inr (chosen, cands) \<and>
      chosen \<in> set cands \<and> list_all (\<lambda>c. region (locality (fst c)) = ''region2'') cands"
    by (simp add: list_all_iff) blast
  have index: "(2::nat) < kNumTservers" by (simp add: kNumTservers_def)
  from fact have "\<forall>i < kNumTservers.
      select 0 (test_tablet example_uuid example_addr example_role) CLOSEST_REPLICA []
        (cloud_info [] (PlacementRegion i)) {}
      = Inr (tserver_replica example_uuid example_addr example_role i,
             [tserver_replica example_uuid example_addr example_role i])"
    by (rule conjunct2)
  with index have "select 0 (test_tablet example_uuid example_addr example_role) CLOSEST_REPLICA []
        (cloud_info [] (PlacementRegion 2)) {}
      = Inr (tserver_replica example_uuid example_addr example_role 2,
             [tserver_replica example_uuid example_addr example_role 2])"
    by blast
  then have scenario:
    "select 0 example_tablet CLOSEST_REPLICA [] (cloud_info [] ''region2'') {}
     = Inr (example_replica 2, [example_replica 2])"
    by (simp add: example_tablet_def example_replica_def PlacementRegion_def)
  from nomatch member same general scenario show ?thesis by (intro conjI)
qed

section \<open>The inbound call context: properties\<close>

subsection \<open>Auxiliary facts\<close>

lemma deref_events_update [simp]: "deref (w\<lparr>events := es\<rparr>) p = deref w p"
  by (cases p) (simp_all add: deref_def)

text \<open>What each terminal operation does to a world in which the context is live.\<close>

lemma RespondSuccess_live:
  assumes "heap w this = Some ctx" and "deref w (ctx_response_pb ctx) = Inr response"
  shows "RespondSuccess this w =
           Inr (w\<lparr>heap := (heap w)(this := None),
                  events := events w @
                    [RecordHandlingCompleted (call_id (ctx_call ctx)) (handler_latency (ctx_metrics ctx)),
                     TRACE_EVENT_ASYNC_END2 ''rpc_call'' ''RPC'' this
                       ''response'' (TraceConvertable (TracePb response))
                       ''trace'' (TraceString (trace_dump (ctx_call ctx))),
                     InboundCall_RespondSuccess (call_id (ctx_call ctx)) response,
                     Delete this]\<rparr>)"
  using assms by (simp add: RespondSuccess_def Let_def emit_def delete_this_def)

lemma RespondFailure_live:
  assumes "heap w this = Some ctx"
  shows "RespondFailure this status w =
           Inr (w\<lparr>heap := (heap w)(this := None),
                  events := events w @
                    [RecordHandlingCompleted (call_id (ctx_call ctx)) (handler_latency (ctx_metrics ctx)),
                     TRACE_EVENT_ASYNC_END2 ''rpc_call'' ''RPC'' this
                       ''status'' (TraceString (Status_ToString status))
                       ''trace'' (TraceString (trace_dump (ctx_call ctx))),
                     InboundCall_RespondFailure (call_id (ctx_call ctx)) ERROR_APPLICATION status,
                     Delete this]\<rparr>)"
  using assms by (simp add: RespondFailure_def Let_def emit_def delete_this_def)

lemma RespondRpcFailure_live:
  assumes "heap w this = Some ctx"
  shows "RespondRpcFailure this err status w =
           Inr (w\<lparr>heap := (heap w)(this := None),
                  events := events w @
                    [RecordHandlingCompleted (call_id (ctx_call ctx)) (handler_latency (ctx_metrics ctx)),
                     TRACE_EVENT_ASYNC_END2 ''rpc_call'' ''RPC'' this
                       ''status'' (TraceString (Status_ToString status))
                       ''trace'' (TraceString (trace_dump (ctx_call ctx))),
                     InboundCall_RespondFailure (call_id (ctx_call ctx)) err status,
                     Delete this]\<rparr>)"
  using assms by (simp add: RespondRpcFailure_def Let_def emit_def delete_this_def)

lemma RespondApplicationError_live:
  assumes "heap w this = Some ctx"
  shows "RespondApplicationError this error_ext_id message app_error_pb w =
           Inr (w\<lparr>heap := (heap w)(this := None),
                  events := events w @
                    RecordHandlingCompleted (call_id (ctx_call ctx)) (handler_latency (ctx_metrics ctx)) #
                    (if 4 \<le> verbosity w
                     then [TRACE_EVENT_ASYNC_END2 ''rpc_call'' ''RPC'' this
                             ''response'' (TraceConvertable (TracePb app_error_pb))
                             ''trace'' (TraceString (trace_dump (ctx_call ctx)))]
                     else []) @
                    [InboundCall_RespondApplicationError (call_id (ctx_call ctx))
                       error_ext_id message app_error_pb,
                     Delete this]\<rparr>)"
  using assms
  by (simp add: RespondApplicationError_def Let_def emit_def delete_this_def VLOG_IS_ON_def)

lemma terminal_after_delete:
  assumes "heap w this = None"
  shows "RespondSuccess this w = Inl UseAfterFree"
    and "RespondFailure this status w = Inl UseAfterFree"
    and "RespondRpcFailure this err status w = Inl UseAfterFree"
    and "RespondApplicationError this error_ext_id message app_error_pb w = Inl UseAfterFree"
  using assms
  by (simp_all add: RespondSuccess_def RespondFailure_def RespondRpcFailure_def
        RespondApplicationError_def)

lemma CloseConnection_live:
  assumes "heap w this = Some ctx" and "sockets w (socket_fd (ctx_call ctx)) = Some s"
  shows "CloseConnection this w =
           Inr (w\<lparr>sockets := (sockets w)(socket_fd (ctx_call ctx) \<mapsto> s\<lparr>write_open := False\<rparr>)\<rparr>)"
  using assms
  by (simp add: CloseConnection_def shutdown_def SHUT_RD_def SHUT_WR_def SHUT_RDWR_def)



lemma static_init_initialises: "statics_initialised (static_init w)"
  by (simp add: statics_initialised_def static_init_def)

text \<open>The concrete world.\<close>

lemma example_live: "heap example_world 7 = Some example_context"
  by (simp add: example_world_def)

lemma example_response:
  "deref example_world (ctx_response_pb example_context) = Inr [(''value'', Str ''pong'')]"
  by (simp add: example_world_def example_context_def deref_def EMPTY_MESSAGE_address_def)

lemma example_events: "events example_world = []"
  by (simp add: example_world_def)

lemma example_sockets:
  "sockets example_world = [5 \<mapsto> \<lparr>read_open = True, write_open = True\<rparr>]"
  by (simp add: example_world_def)

subsection \<open>One response per context\<close>

text \<open>
  Claim C3. \<open>RespondSuccess\<close> on a live context whose response pointer is valid
  returns; of the events it adds, exactly one records a latency sample, on the
  handler-latency metric of the context and for its call, and exactly one is a send on
  the call handle, the success response. The context is destroyed, so every terminal
  operation on the same context afterwards has no defined behaviour.
\<close>

theorem RespondSuccess_exactly_once:
  assumes live: "heap w this = Some ctx"
    and response: "deref w (ctx_response_pb ctx) = Inr response"
  shows "\<exists>w'. RespondSuccess this w = Inr w' \<and>
           filter is_latency_sample (events_since w w') =
             [RecordHandlingCompleted (call_id (ctx_call ctx)) (handler_latency (ctx_metrics ctx))] \<and>
           filter is_send (events_since w w') =
             [InboundCall_RespondSuccess (call_id (ctx_call ctx)) response] \<and>
           heap w' this = None \<and>
           RespondSuccess this w' = Inl UseAfterFree \<and>
           (\<forall>status. RespondFailure this status w' = Inl UseAfterFree) \<and>
           (\<forall>err status. RespondRpcFailure this err status w' = Inl UseAfterFree) \<and>
           (\<forall>error_ext_id message app_error_pb.
              RespondApplicationError this error_ext_id message app_error_pb w' = Inl UseAfterFree)"
proof -
  let ?w' = "w\<lparr>heap := (heap w)(this := None),
                events := events w @
                  [RecordHandlingCompleted (call_id (ctx_call ctx)) (handler_latency (ctx_metrics ctx)),
                   TRACE_EVENT_ASYNC_END2 ''rpc_call'' ''RPC'' this
                     ''response'' (TraceConvertable (TracePb response))
                     ''trace'' (TraceString (trace_dump (ctx_call ctx))),
                   InboundCall_RespondSuccess (call_id (ctx_call ctx)) response,
                   Delete this]\<rparr>"
  have run: "RespondSuccess this w = Inr ?w'"
    using live response by (rule RespondSuccess_live)
  have gone: "heap ?w' this = None" by simp
  have "filter is_latency_sample (events_since w ?w') =
          [RecordHandlingCompleted (call_id (ctx_call ctx)) (handler_latency (ctx_metrics ctx))]"
    by (simp add: events_since_def)
  moreover have "filter is_send (events_since w ?w') =
          [InboundCall_RespondSuccess (call_id (ctx_call ctx)) response]"
    by (simp add: events_since_def)
  ultimately show ?thesis
    using run gone terminal_after_delete [OF gone] by blast
qed

theorem RespondSuccess_exactly_once_witness:
  "heap example_world 7 = Some example_context \<and>
   deref example_world (ctx_response_pb example_context) = Inr [(''value'', Str ''pong'')] \<and>
   (\<exists>w'. RespondSuccess 7 example_world = Inr w' \<and>
         filter is_latency_sample (events_since example_world w') = [RecordHandlingCompleted 3 11] \<and>
         filter is_send (events_since example_world w') =
           [InboundCall_RespondSuccess 3 [(''value'', Str ''pong'')]] \<and>
         heap w' 7 = None \<and>
         RespondSuccess 7 w' = Inl UseAfterFree)"
proof -
  from RespondSuccess_exactly_once [OF example_live example_response]
  have "\<exists>w'. RespondSuccess 7 example_world = Inr w' \<and>
         filter is_latency_sample (events_since example_world w') = [RecordHandlingCompleted 3 11] \<and>
         filter is_send (events_since example_world w') =
           [InboundCall_RespondSuccess 3 [(''value'', Str ''pong'')]] \<and>
         heap w' 7 = None \<and>
         RespondSuccess 7 w' = Inl UseAfterFree"
    by (simp add: example_context_def example_call_def) blast
  with example_live example_response show ?thesis by (intro conjI)
qed

subsection \<open>The sequence of a terminal operation\<close>

text \<open>
  Claim C4, as amended. On a live context, \<open>RespondSuccess\<close> (with a valid response
  pointer), \<open>RespondFailure\<close> and \<open>RespondRpcFailure\<close> each record the completion
  of handling on the handler-latency metric, then emit one end event of the trace span,
  then make one send on the call handle, then destroy the context, and do nothing else.
  The end event carries the accumulated trace and the outcome: for a success a tracer
  holding a copy of the response, for the two failures the text of the status in full.
  \<open>RespondApplicationError\<close> records the completion of handling, makes one send on
  the call handle and destroys the context, in this order; what it adds besides are
  trace events only.
\<close>

theorem terminal_operations_sequence:
  assumes live: "heap w this = Some ctx"
  shows "(\<forall>response. deref w (ctx_response_pb ctx) = Inr response \<longrightarrow>
            RespondSuccess this w =
              Inr (w\<lparr>heap := (heap w)(this := None),
                     events := events w @
                       [RecordHandlingCompleted (call_id (ctx_call ctx)) (handler_latency (ctx_metrics ctx)),
                        TRACE_EVENT_ASYNC_END2 ''rpc_call'' ''RPC'' this
                          ''response'' (TraceConvertable (TracePb response))
                          ''trace'' (TraceString (trace_dump (ctx_call ctx))),
                        InboundCall_RespondSuccess (call_id (ctx_call ctx)) response,
                        Delete this]\<rparr>)) \<and>
         RespondFailure this status w =
           Inr (w\<lparr>heap := (heap w)(this := None),
                  events := events w @
                    [RecordHandlingCompleted (call_id (ctx_call ctx)) (handler_latency (ctx_metrics ctx)),
                     TRACE_EVENT_ASYNC_END2 ''rpc_call'' ''RPC'' this
                       ''status'' (TraceString (Status_ToString status))
                       ''trace'' (TraceString (trace_dump (ctx_call ctx))),
                     InboundCall_RespondFailure (call_id (ctx_call ctx)) ERROR_APPLICATION status,
                     Delete this]\<rparr>) \<and>
         RespondRpcFailure this err status w =
           Inr (w\<lparr>heap := (heap w)(this := None),
                  events := events w @
                    [RecordHandlingCompleted (call_id (ctx_call ctx)) (handler_latency (ctx_metrics ctx)),
                     TRACE_EVENT_ASYNC_END2 ''rpc_call'' ''RPC'' this
                       ''status'' (TraceString (Status_ToString status))
                       ''trace'' (TraceString (trace_dump (ctx_call ctx))),
                     InboundCall_RespondFailure (call_id (ctx_call ctx)) err status,
                     Delete this]\<rparr>) \<and>
         (\<exists>w'. RespondApplicationError this error_ext_id message app_error_pb w = Inr w' \<and>
               heap w' = (heap w)(this := None) \<and>
               filter (\<lambda>e. \<not> is_span_end e) (events_since w w') =
                 [RecordHandlingCompleted (call_id (ctx_call ctx)) (handler_latency (ctx_metrics ctx)),
                  InboundCall_RespondApplicationError (call_id (ctx_call ctx))
                    error_ext_id message app_error_pb,
                  Delete this])"
proof (intro conjI allI impI)
  fix response
  assume "deref w (ctx_response_pb ctx) = Inr response"
  with live show "RespondSuccess this w =
      Inr (w\<lparr>heap := (heap w)(this := None),
             events := events w @
               [RecordHandlingCompleted (call_id (ctx_call ctx)) (handler_latency (ctx_metrics ctx)),
                TRACE_EVENT_ASYNC_END2 ''rpc_call'' ''RPC'' this
                  ''response'' (TraceConvertable (TracePb response))
                  ''trace'' (TraceString (trace_dump (ctx_call ctx))),
                InboundCall_RespondSuccess (call_id (ctx_call ctx)) response,
                Delete this]\<rparr>)"
    by (rule RespondSuccess_live)
next
  show "RespondFailure this status w =
      Inr (w\<lparr>heap := (heap w)(this := None),
             events := events w @
               [RecordHandlingCompleted (call_id (ctx_call ctx)) (handler_latency (ctx_metrics ctx)),
                TRACE_EVENT_ASYNC_END2 ''rpc_call'' ''RPC'' this
                  ''status'' (TraceString (Status_ToString status))
                  ''trace'' (TraceString (trace_dump (ctx_call ctx))),
                InboundCall_RespondFailure (call_id (ctx_call ctx)) ERROR_APPLICATION status,
                Delete this]\<rparr>)"
    using live by (rule RespondFailure_live)
next
  show "RespondRpcFailure this err status w =
      Inr (w\<lparr>heap := (heap w)(this := None),
             events := events w @
               [RecordHandlingCompleted (call_id (ctx_call ctx)) (handler_latency (ctx_metrics ctx)),
                TRACE_EVENT_ASYNC_END2 ''rpc_call'' ''RPC'' this
                  ''status'' (TraceString (Status_ToString status))
                  ''trace'' (TraceString (trace_dump (ctx_call ctx))),
                InboundCall_RespondFailure (call_id (ctx_call ctx)) err status,
                Delete this]\<rparr>)"
    using live by (rule RespondRpcFailure_live)
next
  show "\<exists>w'. RespondApplicationError this error_ext_id message app_error_pb w = Inr w' \<and>
               heap w' = (heap w)(this := None) \<and>
               filter (\<lambda>e. \<not> is_span_end e) (events_since w w') =
                 [RecordHandlingCompleted (call_id (ctx_call ctx)) (handler_latency (ctx_metrics ctx)),
                  InboundCall_RespondApplicationError (call_id (ctx_call ctx))
                    error_ext_id message app_error_pb,
                  Delete this]"
    using RespondApplicationError_live [OF live, of error_ext_id message app_error_pb]
    by (simp add: events_since_def)
qed

text \<open>A success and an overload failure on the example call.\<close>

theorem terminal_operations_sequence_witness:
  "heap example_world 7 = Some example_context \<and>
   RespondSuccess 7 example_world =
     Inr (example_world\<lparr>heap := (heap example_world)(7 := None),
            events :=
              [RecordHandlingCompleted 3 11,
               TRACE_EVENT_ASYNC_END2 ''rpc_call'' ''RPC'' 7
                 ''response'' (TraceConvertable (TracePb [(''value'', Str ''pong'')]))
                 ''trace'' (TraceString ''0us handler started''),
               InboundCall_RespondSuccess 3 [(''value'', Str ''pong'')],
               Delete 7]\<rparr>) \<and>
   RespondRpcFailure 7 ERROR_SERVER_TOO_BUSY (Status ''Service unavailable: queue full'') example_world =
     Inr (example_world\<lparr>heap := (heap example_world)(7 := None),
            events :=
              [RecordHandlingCompleted 3 11,
               TRACE_EVENT_ASYNC_END2 ''rpc_call'' ''RPC'' 7
                 ''status'' (TraceString ''Service unavailable: queue full'')
                 ''trace'' (TraceString ''0us handler started''),
               InboundCall_RespondFailure 3 ERROR_SERVER_TOO_BUSY
                 (Status ''Service unavailable: queue full''),
               Delete 7]\<rparr>)"
  using terminal_operations_sequence [OF example_live,
      where err = ERROR_SERVER_TOO_BUSY and status = "Status ''Service unavailable: queue full''"]
    example_response example_live
  by (simp add: example_context_def example_call_def example_events)

text \<open>
  The claim as first stated fails twice on the example call. With the verbosity below
  4, \<open>RespondApplicationError\<close> emits no end event of the trace span: the events are
  the latency record, the send and the deletion. And \<open>RespondFailure\<close> with a status
  text of 101 characters puts the whole text into the end event, above the limit a
  tracer applies to a field.
\<close>

theorem terminal_trace_counterexample:
  "RespondApplicationError 7 1 ''quota exceeded'' [(''limit'', Scalar 10)] example_world =
     Inr (example_world\<lparr>heap := (heap example_world)(7 := None),
            events :=
              [RecordHandlingCompleted 3 11,
               InboundCall_RespondApplicationError 3 1 ''quota exceeded'' [(''limit'', Scalar 10)],
               Delete 7]\<rparr>) \<and>
   RespondFailure 7 (Status (replicate 101 CHR ''x'')) example_world =
     Inr (example_world\<lparr>heap := (heap example_world)(7 := None),
            events :=
              [RecordHandlingCompleted 3 11,
               TRACE_EVENT_ASYNC_END2 ''rpc_call'' ''RPC'' 7
                 ''status'' (TraceString (replicate 101 CHR ''x''))
                 ''trace'' (TraceString ''0us handler started''),
               InboundCall_RespondFailure 3 ERROR_APPLICATION (Status (replicate 101 CHR ''x'')),
               Delete 7]\<rparr>) \<and>
   kMaxFieldLengthToTrace < length (replicate 101 CHR ''x'')"
proof -
  have quiet: "\<not> 4 \<le> verbosity example_world"
    by (simp add: example_world_def)
  show ?thesis
    using quiet
    by (simp add: RespondApplicationError_live [OF example_live] RespondFailure_live [OF example_live]
          example_context_def example_call_def example_events kMaxFieldLengthToTrace_def)
qed

subsection \<open>The field limit of a tracer\<close>




subsection \<open>The requestor string\<close>

text \<open>
  Claim C7. For a live context, \<open>requestor_string\<close> returns the description of
  the user credentials of the call, then the text \<open>" at "\<close>, then the text of the
  remote address of the call, and nothing more.
\<close>

theorem requestor_string_format:
  assumes "RpcContext_user_credentials this w = Inr creds"
    and "RpcContext_remote_address this w = Inr addr"
  shows "requestor_string this w =
           Inr (UserCredentials_ToString creds @ '' at '' @ Sockaddr_ToString addr)"
  using assms
  by (auto simp: RpcContext_user_credentials_def RpcContext_remote_address_def
        requestor_string_def split: option.splits)

theorem requestor_string_format_witness:
  "RpcContext_user_credentials 7 example_world = Inr (UserCredentials ''{real_user=yugabyte}'') \<and>
   RpcContext_remote_address 7 example_world = Inr (Sockaddr ''10.0.0.9:50432'') \<and>
   requestor_string 7 example_world = Inr ''{real_user=yugabyte} at 10.0.0.9:50432''"
proof -
  have c: "RpcContext_user_credentials 7 example_world = Inr (UserCredentials ''{real_user=yugabyte}'')"
    by (simp add: RpcContext_user_credentials_def example_world_def example_context_def
          example_call_def)
  have a: "RpcContext_remote_address 7 example_world = Inr (Sockaddr ''10.0.0.9:50432'')"
    by (simp add: RpcContext_remote_address_def example_world_def example_context_def
          example_call_def)
  from requestor_string_format [OF c a] c a show ?thesis by simp
qed

subsection \<open>Closing the connection\<close>

text \<open>
  Claim C8. \<open>CloseConnection\<close> passes \<open>SHUT_RD | SHUT_WR\<close> to \<open>shutdown\<close>.
  The bitwise or of 0 and 1 is 1, which is \<open>SHUT_WR\<close> and not \<open>SHUT_RDWR\<close>: on
  the example call the write half of socket 5 is shut down and the read half stays
  open. No event is added, so no response is sent.
\<close>

theorem CloseConnection_write_half_only:
  "or SHUT_RD SHUT_WR = SHUT_WR \<and> or SHUT_RD SHUT_WR \<noteq> SHUT_RDWR \<and>
   CloseConnection 7 example_world =
     Inr (example_world\<lparr>sockets := [5 \<mapsto> \<lparr>read_open = True, write_open = False\<rparr>]\<rparr>)"
proof -
  have "sockets example_world (socket_fd (ctx_call example_context)) =
          Some \<lparr>read_open = True, write_open = True\<rparr>"
    by (simp add: example_sockets example_context_def example_call_def)
  from CloseConnection_live [OF example_live this] show ?thesis
    by (simp add: example_sockets example_context_def example_call_def
          SHUT_RD_def SHUT_WR_def SHUT_RDWR_def)
qed

subsection \<open>Payloads of a context without arguments\<close>

text \<open>
  Claim C9. Once the static \<open>EMPTY_MESSAGE\<close> is initialised, constructing a context
  without payloads succeeds; the request pointer and the response pointer of the new
  context are both \<open>EMPTY_MESSAGE\<close>, which is not null and refers to the empty
  message, and the constructor leaves the stored messages as they were.
\<close>

theorem no_args_payloads:
  assumes "statics_initialised w"
  shows "\<exists>w' ctx. RpcContext_new_no_args this call metrics w = Inr w' \<and>
           heap w' this = Some ctx \<and>
           ctx_request_pb ctx = EMPTY_MESSAGE \<and> ctx_response_pb ctx = EMPTY_MESSAGE \<and>
           ctx_request_pb ctx \<noteq> nullptr \<and> ctx_response_pb ctx \<noteq> nullptr \<and>
           deref w' (ctx_request_pb ctx) = Inr EmptyMessagePB \<and>
           deref w' (ctx_response_pb ctx) = Inr EmptyMessagePB \<and>
           messages w' = messages w"
  using assms
  by (simp add: RpcContext_new_no_args_def statics_initialised_def deref_def EMPTY_MESSAGE_def
        emit_def Let_def)

theorem no_args_payloads_witness:
  "statics_initialised example_world \<and>
   (\<exists>w' ctx. RpcContext_new_no_args 8 example_call \<lparr>handler_latency = 11\<rparr> example_world = Inr w' \<and>
      heap w' 8 = Some ctx \<and>
      ctx_request_pb ctx = ctx_response_pb ctx \<and>
      deref w' (ctx_request_pb ctx) = Inr [])"
proof -
  have init: "statics_initialised example_world"
    by (simp add: statics_initialised_def example_world_def EMPTY_MESSAGE_address_def)
  from no_args_payloads [OF init, of 8 example_call "\<lparr>handler_latency = 11\<rparr>"] init
  show ?thesis by (auto simp: EmptyMessagePB_def)
qed

subsection \<open>The error code of a failure\<close>

text \<open>
  Claim C10. On a live context \<open>RespondFailure\<close> sends the status to the call handle
  with the code \<open>ERROR_APPLICATION\<close>, whatever the status, and
  \<open>RespondRpcFailure\<close> sends it with the code its caller gave, unchanged.
  \<open>RespondFailure\<close> is \<open>RespondRpcFailure\<close> at \<open>ERROR_APPLICATION\<close>, and for the
  same status the two differ exactly when the caller's code is another one.
\<close>

theorem failure_codes:
  assumes live: "heap w this = Some ctx"
  shows "RespondFailure this status w = RespondRpcFailure this ERROR_APPLICATION status w \<and>
         (\<exists>w'. RespondFailure this status w = Inr w' \<and>
               filter is_send (events_since w w') =
                 [InboundCall_RespondFailure (call_id (ctx_call ctx)) ERROR_APPLICATION status]) \<and>
         (\<exists>w'. RespondRpcFailure this err status w = Inr w' \<and>
               filter is_send (events_since w w') =
                 [InboundCall_RespondFailure (call_id (ctx_call ctx)) err status]) \<and>
         (RespondRpcFailure this err status w = RespondFailure this status w
            \<longleftrightarrow> err = ERROR_APPLICATION)"
proof -
  note app = RespondFailure_live [OF live, of status]
  note rpc = RespondRpcFailure_live [OF live, of err status]
  have same: "RespondFailure this status w = RespondRpcFailure this ERROR_APPLICATION status w"
    by (simp add: RespondFailure_def RespondRpcFailure_def)
  have sent_app: "\<exists>w'. RespondFailure this status w = Inr w' \<and>
      filter is_send (events_since w w') =
        [InboundCall_RespondFailure (call_id (ctx_call ctx)) ERROR_APPLICATION status]"
    by (simp add: app events_since_def)
  have sent_rpc: "\<exists>w'. RespondRpcFailure this err status w = Inr w' \<and>
      filter is_send (events_since w w') =
        [InboundCall_RespondFailure (call_id (ctx_call ctx)) err status]"
    by (simp add: rpc events_since_def)
  have differ: "RespondRpcFailure this err status w = RespondFailure this status w
          \<longleftrightarrow> err = ERROR_APPLICATION"
  proof
    assume "RespondRpcFailure this err status w = RespondFailure this status w"
    then have "map_sum id events (RespondRpcFailure this err status w) =
               map_sum id events (RespondFailure this status w)"
      by simp
    then show "err = ERROR_APPLICATION"
      by (simp add: app rpc)
  next
    assume "err = ERROR_APPLICATION"
    with same show "RespondRpcFailure this err status w = RespondFailure this status w"
      by simp
  qed
  from same sent_app sent_rpc differ show ?thesis
    by (intro conjI)
qed

theorem failure_codes_witness:
  "heap example_world 7 = Some example_context \<and>
   RespondFailure 7 (Status ''Not found: no such row'') example_world =
     RespondRpcFailure 7 ERROR_APPLICATION (Status ''Not found: no such row'') example_world \<and>
   RespondRpcFailure 7 ERROR_INVALID_REQUEST (Status ''Not found: no such row'') example_world \<noteq>
     RespondFailure 7 (Status ''Not found: no such row'') example_world"
  using failure_codes [OF example_live,
      where status = "Status ''Not found: no such row''" and err = ERROR_INVALID_REQUEST]
    example_live
  by auto

end
